theory Spec2Isabelle
  imports Complex_Main
begin

section \<open>The temperature consumer: data model\<close>

text \<open>
  The development follows \<^verbatim>\<open>consumers/project_consumer_pinkston.py\<close>.

  \<^item> A message is modelled by what \<^verbatim>\<open>json.loads\<close> (standard library) makes of its text:
    either the call raises \<^verbatim>\<open>JSONDecodeError\<close>, or it returns a Python value.
  \<^item> Python values are the ones \<^verbatim>\<open>json.loads\<close> can return. A dict is an association
    list read with \<open>map_of\<close>.
  \<^item> Python floats are idealised as exact rationals: rounding, infinities and NaN are not
    represented. The one place where the float range changes the control flow is kept:
    adding an \<^verbatim>\<open>int\<close> to a \<^verbatim>\<open>float\<close> converts the int first, and the
    conversion raises \<^verbatim>\<open>OverflowError\<close> for an int outside the range of a double.
  \<^item> The wall clock is an input: each call of \<^verbatim>\<open>process_message\<close> is given the two
    readings of \<^verbatim>\<open>time.time()\<close> it may take (lines 189 and 198).
  \<^item> The two environment getters are taken as returning the same successfully parsed
    values during a run (the configuration); the plotting library's calls are taken
    as not raising.
  \<^item> What the program emits is a list of events: error log lines, chart redraws and
    printed analytics reports.
\<close>

datatype pyval =
    PNone
  | PBool bool
  | PInt int
  | PFloat rat
  | PStr string
  | PList "pyval list"
  | PDict "(string \<times> pyval) list"

datatype message = NotJson | Json pyval

datatype pyerr = JSONDecodeError | AttributeError | TypeError | OverflowError | ValueError

datatype color = Red | Blue

record chart =
  bar_x :: "pyval list"
  bar_y :: "pyval list"
  bar_colors :: "color list"

record report =
  report_total_messages :: int
  report_avg_high_temp :: rat

datatype event =
    LogInvalidMessage
  | LogError pyerr
  | DrawChart chart
  | PrintReport report

text \<open>\<^verbatim>\<open>deque(maxlen=...)\<close>: the capacity and the items held, oldest first.\<close>

record deque =
  maxlen :: int
  items :: "pyval list"

text \<open>The module-level variables (lines 78-89).\<close>

record globals =
  timestamps :: "pyval list"
  temperatures :: "pyval list"
  total_messages :: int
  high_temps_sum :: rat
  high_temp_count :: int
  window_messages :: int
  window_start :: rat

text \<open>What \<^verbatim>\<open>get_high_temp_threshold()\<close> and \<^verbatim>\<open>get_rolling_window_size()\<close> return.\<close>

record config =
  high_temp_threshold :: rat
  rolling_window_size :: int

record clock =
  time_at_check :: rat
  time_at_reset :: rat

section \<open>Python operations used by the consumer\<close>

text \<open>\<^verbatim>\<open>data.get(key)\<close>: only a dict has \<^verbatim>\<open>get\<close>; a missing key gives \<^verbatim>\<open>None\<close>.\<close>

fun dict_get :: "pyval \<Rightarrow> string \<Rightarrow> pyerr + pyval" where
  "dict_get (PDict d) k = Inr (case map_of d k of None \<Rightarrow> PNone | Some v \<Rightarrow> v)"
| "dict_get _ k = Inl AttributeError"

text \<open>\<^verbatim>\<open>temp >= threshold\<close> with a float threshold: numbers (and bools, which are ints)
  compare by value, anything else raises \<^verbatim>\<open>TypeError\<close>.\<close>

fun py_ge :: "pyval \<Rightarrow> rat \<Rightarrow> pyerr + bool" where
  "py_ge (PBool b) thr = Inr ((if b then 1 else 0) \<ge> thr)"
| "py_ge (PInt i) thr = Inr (of_int i \<ge> thr)"
| "py_ge (PFloat r) thr = Inr (r \<ge> thr)"
| "py_ge _ thr = Inl TypeError"

text \<open>An int converts to a float when its magnitude is below \<open>2^1024 - 2^970\<close>
  (everything from there on rounds beyond the largest double).\<close>

definition float_of_int :: "int \<Rightarrow> pyerr + rat" where
  "float_of_int i = (if \<bar>i\<bar> < 2 ^ 1024 - 2 ^ 970 then Inr (of_int i) else Inl OverflowError)"

text \<open>\<^verbatim>\<open>acc += temperature\<close> with a float accumulator.\<close>

fun float_add :: "rat \<Rightarrow> pyval \<Rightarrow> pyerr + rat" where
  "float_add acc (PBool b) = Inr (acc + (if b then 1 else 0))"
| "float_add acc (PInt i) =
     (case float_of_int i of Inl e \<Rightarrow> Inl e | Inr r \<Rightarrow> Inr (acc + r))"
| "float_add acc (PFloat r) = Inr (acc + r)"
| "float_add acc _ = Inl TypeError"

section \<open>The chart\<close>

text \<open>The list comprehension of line 128: it raises as soon as one stored temperature
  does not compare with the threshold.\<close>

fun bar_colors_of :: "rat \<Rightarrow> pyval list \<Rightarrow> pyerr + color list" where
  "bar_colors_of thr [] = Inr []"
| "bar_colors_of thr (temp # temps) =
     (case py_ge temp thr of
        Inl e \<Rightarrow> Inl e
      | Inr hot \<Rightarrow>
          (case bar_colors_of thr temps of
             Inl e \<Rightarrow> Inl e
           | Inr cs \<Rightarrow> Inr ((if hot then Red else Blue) # cs)))"

definition update_chart :: "config \<Rightarrow> globals \<Rightarrow> pyerr + chart" where
  "update_chart cfg g =
     (case bar_colors_of (high_temp_threshold cfg) (temperatures g) of
        Inl e \<Rightarrow> Inl e
      | Inr cs \<Rightarrow> Inr \<lparr>bar_x = timestamps g, bar_y = temperatures g, bar_colors = cs\<rparr>)"

section \<open>Processing one message\<close>

text \<open>Line 191.\<close>

definition avg_high_temp :: "globals \<Rightarrow> rat" where
  "avg_high_temp g =
     (if high_temp_count g \<noteq> 0 then high_temps_sum g / of_int (high_temp_count g) else 0)"

text \<open>Lines 189-198, reached only when nothing before raised.\<close>

definition periodic_report :: "config \<Rightarrow> clock \<Rightarrow> globals \<Rightarrow> globals \<times> event list" where
  "periodic_report cfg clk g =
     (let elapsed = time_at_check clk - window_start g in
      if elapsed \<ge> of_int (rolling_window_size cfg) then
        (g\<lparr>window_messages := 0, window_start := time_at_reset clk\<rparr>,
         [PrintReport \<lparr>report_total_messages = total_messages g,
                       report_avg_high_temp = avg_high_temp g\<rparr>])
      else (g, []))"

text \<open>Lines 181-183: the comparison, then the two updates in the source's order, so
  that a failing addition leaves the count as it was.\<close>

definition count_high_temp :: "config \<Rightarrow> pyval \<Rightarrow> globals \<Rightarrow> pyerr + globals" where
  "count_high_temp cfg temperature g =
     (case py_ge temperature (high_temp_threshold cfg) of
        Inl e \<Rightarrow> Inl e
      | Inr hot \<Rightarrow>
          if hot then
            (case float_add (high_temps_sum g) temperature of
               Inl e \<Rightarrow> Inl e
             | Inr new_sum \<Rightarrow>
                 Inr (g\<lparr>high_temps_sum := new_sum, high_temp_count := high_temp_count g + 1\<rparr>))
          else Inr g)"

text \<open>Lines 176-180: the unconditional bookkeeping of an accepted reading.\<close>

definition record_reading :: "pyval \<Rightarrow> pyval \<Rightarrow> globals \<Rightarrow> globals" where
  "record_reading timestamp temperature g =
     g\<lparr>timestamps := timestamps g @ [timestamp],
       temperatures := temperatures g @ [temperature],
       total_messages := total_messages g + 1,
       window_messages := window_messages g + 1\<rparr>"

text \<open>
  \<^verbatim>\<open>process_message(message, rolling_window, window_size)\<close>. The deque is passed by
  reference, so the model returns it with the globals. Every exception of the body is
  caught by one of the two handlers, which log it; the mutations made before it stay.
\<close>

definition process_message ::
  "config \<Rightarrow> clock \<Rightarrow> message \<Rightarrow> deque \<Rightarrow> int \<Rightarrow> globals \<Rightarrow> (globals \<times> deque) \<times> event list" where
  "process_message cfg clk message rolling_window window_size g =
     (case message of
        NotJson \<Rightarrow> ((g, rolling_window), [LogError JSONDecodeError])
      | Json data \<Rightarrow>
          (case dict_get data ''temperature'' of
             Inl e \<Rightarrow> ((g, rolling_window), [LogError e])
           | Inr temperature \<Rightarrow>
          (case dict_get data ''timestamp'' of
             Inl e \<Rightarrow> ((g, rolling_window), [LogError e])
           | Inr timestamp \<Rightarrow>
          if timestamp = PNone \<or> temperature = PNone then
            ((g, rolling_window), [LogInvalidMessage])
          else
            (let g1 = record_reading timestamp temperature g in
             case count_high_temp cfg temperature g1 of
               Inl e \<Rightarrow> ((g1, rolling_window), [LogError e])
             | Inr g2 \<Rightarrow>
                 (case update_chart cfg g2 of
                    Inl e \<Rightarrow> ((g2, rolling_window), [LogError e])
                  | Inr c \<Rightarrow>
                      (let (g3, printed) = periodic_report cfg clk g2
                       in ((g3, rolling_window), DrawChart c # printed)))))))"

section \<open>The driver\<close>

text \<open>The module-level initialisation; \<open>t0\<close> is the clock reading of line 89.\<close>

definition module_init :: "rat \<Rightarrow> globals" where
  "module_init t0 =
     \<lparr>timestamps = [], temperatures = [], total_messages = 0, high_temps_sum = 0,
      high_temp_count = 0, window_messages = 0, window_start = t0\<rparr>"

text \<open>The loop of lines 237-240 over the messages the consumer yields, each with the
  clock readings available while it is processed.\<close>

fun consume ::
  "config \<Rightarrow> (clock \<times> message) list \<Rightarrow> deque \<Rightarrow> int \<Rightarrow> globals \<Rightarrow> (globals \<times> deque) \<times> event list" where
  "consume cfg [] rolling_window window_size g = ((g, rolling_window), [])"
| "consume cfg ((clk, message) # rest) rolling_window window_size g =
     (let ((g', rolling_window'), out) = process_message cfg clk message rolling_window window_size g;
          (final, out') = consume cfg rest rolling_window' window_size g'
      in (final, out @ out'))"



section \<open>Observers used to state the properties\<close>

text \<open>A message is accepted when it passes the check of line 172: it decodes to a dict
  in which both \<^verbatim>\<open>temperature\<close> and \<^verbatim>\<open>timestamp\<close> are present and not null.\<close>

definition accepted :: "message \<Rightarrow> bool" where
  "accepted message =
     (case message of
        NotJson \<Rightarrow> False
      | Json data \<Rightarrow>
          (case (dict_get data ''temperature'', dict_get data ''timestamp'') of
             (Inr temperature, Inr timestamp) \<Rightarrow> timestamp \<noteq> PNone \<and> temperature \<noteq> PNone
           | _ \<Rightarrow> False))"

text \<open>The number a JSON temperature stands for, when it is a number that a float can
  hold (the \<^verbatim>\<open>temperature: float\<close> of a reading).\<close>

fun float_value :: "pyval \<Rightarrow> rat option" where
  "float_value (PInt i) = (if \<bar>i\<bar> < 2 ^ 1024 - 2 ^ 970 then Some (of_int i) else None)"
| "float_value (PFloat r) = Some r"
| "float_value _ = None"

text \<open>The temperature of an accepted reading whose temperature is such a number.\<close>

definition numeric_reading :: "message \<Rightarrow> rat option" where
  "numeric_reading message =
     (case message of
        NotJson \<Rightarrow> None
      | Json data \<Rightarrow>
          (case (dict_get data ''temperature'', dict_get data ''timestamp'') of
             (Inr temperature, Inr timestamp) \<Rightarrow>
               if timestamp = PNone then None else float_value temperature
           | _ \<Rightarrow> None))"

text \<open>The analytics reports among the emitted events, in order.\<close>

fun reports :: "event list \<Rightarrow> report list" where
  "reports [] = []"
| "reports (PrintReport r # evs) = r # reports evs"
| "reports (_ # evs) = reports evs"



text \<open>The globals a run ends with.\<close>

definition final_globals :: "(globals \<times> deque) \<times> event list \<Rightarrow> globals" where
  "final_globals r = fst (fst r)"

definition final_deque :: "(globals \<times> deque) \<times> event list \<Rightarrow> deque" where
  "final_deque r = snd (fst r)"

definition emitted :: "(globals \<times> deque) \<times> event list \<Rightarrow> event list" where
  "emitted r = snd r"

text \<open>The running totals and the history: everything in the globals except the two
  per-window variables.\<close>

definition totals :: "globals \<Rightarrow> pyval list \<times> pyval list \<times> int \<times> rat \<times> int" where
  "totals g =
     (timestamps g, temperatures g, total_messages g, high_temps_sum g, high_temp_count g)"




section \<open>Supporting lemmas\<close>

subsection \<open>Accepted and rejected messages\<close>

lemma accepted_iff:
  "accepted m \<longleftrightarrow>
     (\<exists>d t ts. m = Json (PDict d) \<and> map_of d ''temperature'' = Some t \<and> t \<noteq> PNone \<and>
                map_of d ''timestamp'' = Some ts \<and> ts \<noteq> PNone)"
proof (cases m)
  case NotJson
  then show ?thesis by (simp add: accepted_def)
next
  case (Json data)
  then show ?thesis
    by (cases data) (auto simp: accepted_def split: option.splits)
qed

lemma numeric_reading_accepted: "numeric_reading m = Some T \<Longrightarrow> accepted m"
  by (auto simp: numeric_reading_def accepted_def split: message.splits sum.splits if_splits)

lemma count_high_temp_frame:
  "count_high_temp cfg t g = Inr g' \<Longrightarrow>
     timestamps g' = timestamps g \<and> temperatures g' = temperatures g \<and>
     total_messages g' = total_messages g \<and> window_messages g' = window_messages g \<and>
     window_start g' = window_start g"
  by (auto simp: count_high_temp_def split: sum.splits if_splits)

lemma periodic_report_frame:
  "periodic_report cfg clk g = (g', out) \<Longrightarrow>
     timestamps g' = timestamps g \<and> temperatures g' = temperatures g \<and>
     total_messages g' = total_messages g \<and> high_temps_sum g' = high_temps_sum g \<and>
     high_temp_count g' = high_temp_count g"
  by (auto simp: periodic_report_def Let_def split: if_splits)

lemma process_message_rejected:
  "\<not> accepted m \<Longrightarrow> fst (process_message cfg clk m rw ws g) = (g, rw)"
  by (auto simp: process_message_def accepted_def split: message.splits sum.splits)

lemma process_message_deque:
  "snd (fst (process_message cfg clk m rw ws g)) = rw"
  by (auto simp: process_message_def Let_def split: message.splits sum.splits prod.splits)

lemma process_message_history:
  assumes "accepted m"
  shows "length (timestamps (fst (fst (process_message cfg clk m rw ws g)))) = Suc (length (timestamps g))"
    and "length (temperatures (fst (fst (process_message cfg clk m rw ws g)))) = Suc (length (temperatures g))"
    and "total_messages (fst (fst (process_message cfg clk m rw ws g))) = total_messages g + 1"
  using assms
  by (auto simp: process_message_def accepted_def Let_def record_reading_def
      split: message.splits sum.splits prod.splits
      dest!: count_high_temp_frame periodic_report_frame)

subsection \<open>Runs and the history\<close>


lemma consume_history:
  "int (length (timestamps (final_globals (consume cfg msgs rw ws g)))) =
     int (length (timestamps g)) + int (length (filter (accepted \<circ> snd) msgs)) \<and>
   int (length (temperatures (final_globals (consume cfg msgs rw ws g)))) =
     int (length (temperatures g)) + int (length (filter (accepted \<circ> snd) msgs)) \<and>
   total_messages (final_globals (consume cfg msgs rw ws g)) =
     total_messages g + int (length (filter (accepted \<circ> snd) msgs))"
proof (induction msgs arbitrary: rw g)
  case Nil
  then show ?case by (simp add: final_globals_def)
next
  case (Cons cm msgs)
  obtain clk m where cm: "cm = (clk, m)" by (cases cm)
  obtain g' rw' out where step: "process_message cfg clk m rw ws g = ((g', rw'), out)"
    by (metis surj_pair)
  have rest: "final_globals (consume cfg (cm # msgs) rw ws g) =
              final_globals (consume cfg msgs rw' ws g')"
    using cm step by (simp add: final_globals_def split: prod.splits)
  show ?case
  proof (cases "accepted m")
    case True
    from process_message_history [OF True, of cfg clk rw ws g] step
    have "length (timestamps g') = Suc (length (timestamps g))"
      and "length (temperatures g') = Suc (length (temperatures g))"
      and "total_messages g' = total_messages g + 1"
      by simp_all
    with Cons.IH [of rw' g'] rest cm True show ?thesis by simp
  next
    case False
    from process_message_rejected [OF False, of cfg clk rw ws g] step
    have "g' = g" by simp
    with Cons.IH [of rw' g'] rest cm False show ?thesis by simp
  qed
qed

subsection \<open>The deque is not involved\<close>



subsection \<open>Bar colours\<close>

lemma bar_colors_of_length:
  "bar_colors_of thr temps = Inr cs \<Longrightarrow> length cs = length temps"
  by (induction temps arbitrary: cs) (auto split: sum.splits)

lemma bar_colors_of_nth:
  "bar_colors_of thr temps = Inr cs \<Longrightarrow> i < length temps \<Longrightarrow>
     py_ge (temps ! i) thr = Inr (cs ! i = Red)"
proof (induction temps arbitrary: cs i)
  case Nil
  then show ?case by simp
next
  case (Cons temp temps)
  then show ?case
    by (cases i) (auto split: sum.splits if_splits)
qed

lemma py_ge_monotone:
  "t1 \<le> t2 \<Longrightarrow> py_ge temp t1 = Inr False \<Longrightarrow> py_ge temp t2 = Inr hot \<Longrightarrow> \<not> hot"
  by (cases temp) (auto split: if_splits)

lemma py_ge_raises_alike:
  "py_ge temp t1 = Inl e \<longleftrightarrow> py_ge temp t2 = Inl e"
  by (cases temp) auto

lemma bar_colors_of_raises_alike:
  "bar_colors_of t1 temps = Inl e \<longleftrightarrow> bar_colors_of t2 temps = Inl e"
proof (induction temps)
  case Nil
  show ?case by simp
next
  case (Cons temp temps)
  show ?case
  proof (cases "py_ge temp t1")
    case (Inl e1)
    then have "py_ge temp t2 = Inl e1" using py_ge_raises_alike by blast
    with Inl show ?thesis by simp
  next
    case (Inr h1)
    then obtain h2 where "py_ge temp t2 = Inr h2"
      using py_ge_raises_alike [of temp t2 _ t1] by (cases "py_ge temp t2") auto
    with Inr Cons.IH show ?thesis
      by (cases "bar_colors_of t1 temps"; cases "bar_colors_of t2 temps") auto
  qed
qed

subsection \<open>Readings with a numeric temperature\<close>









subsection \<open>The totals do not depend on the clock\<close>

lemma consume_Cons:
  "consume cfg ((clk, m) # rest) rw ws g =
     (fst (consume cfg rest rw ws (final_globals (process_message cfg clk m rw ws g))),
      emitted (process_message cfg clk m rw ws g) @
      snd (consume cfg rest rw ws (final_globals (process_message cfg clk m rw ws g))))"
proof -
  obtain g1 out1 where "process_message cfg clk m rw ws g = ((g1, rw), out1)"
    by (metis process_message_deque surj_pair fst_conv snd_conv)
  then show ?thesis
    by (simp add: final_globals_def emitted_def split: prod.splits)
qed

lemma process_message_totals_clock_free:
  assumes "totals g = totals h"
  shows "totals (final_globals (process_message cfg clk m rw ws g)) =
         totals (final_globals (process_message cfg clk' m rw' ws' h))"
proof (cases "accepted m")
  case False
  then show ?thesis
    using assms process_message_rejected [of m] by (simp add: final_globals_def)
next
  case True
  then obtain d temp ts where m: "m = Json (PDict d)"
    and temp: "dict_get (PDict d) ''temperature'' = Inr temp" "temp \<noteq> PNone"
    and ts: "dict_get (PDict d) ''timestamp'' = Inr ts" "ts \<noteq> PNone"
    by (auto simp: accepted_iff)
  have rec: "totals (record_reading ts temp g) = totals (record_reading ts temp h)"
    using assms by (simp add: totals_def record_reading_def)
  have cnt: "(case count_high_temp cfg temp (record_reading ts temp g) of
                Inl e \<Rightarrow> Inl e | Inr g2 \<Rightarrow> Inr (totals g2)) =
             (case count_high_temp cfg temp (record_reading ts temp h) of
                Inl e \<Rightarrow> Inl e | Inr h2 \<Rightarrow> Inr (totals h2))"
    using rec by (auto simp: count_high_temp_def totals_def split: sum.splits)
  have chart: "update_chart cfg g2 = update_chart cfg h2" if "totals g2 = totals h2" for g2 h2
    using that by (auto simp: update_chart_def totals_def split: sum.splits)
  have rep: "totals (fst (periodic_report cfg c g2)) = totals g2" for c g2
    by (simp add: periodic_report_def totals_def Let_def)
  show ?thesis
  proof (cases "count_high_temp cfg temp (record_reading ts temp g)")
    case (Inl e)
    then have "count_high_temp cfg temp (record_reading ts temp h) = Inl e"
      using cnt by (auto split: sum.splits)
    with Inl m temp ts rec show ?thesis
      by (simp add: process_message_def final_globals_def)
  next
    case (Inr g2)
    then obtain h2 where h2: "count_high_temp cfg temp (record_reading ts temp h) = Inr h2"
      and eq: "totals g2 = totals h2"
      using cnt by (auto split: sum.splits)
    show ?thesis
      using Inr h2 eq m temp ts chart [OF eq] rep [of clk g2] rep [of clk' h2]
      by (auto simp: process_message_def final_globals_def Let_def split: sum.splits prod.splits)
  qed
qed

lemma consume_totals_clock_free:
  assumes "map snd msgs' = map snd msgs" and "totals g = totals h"
  shows "totals (final_globals (consume cfg msgs rw ws g)) =
         totals (final_globals (consume cfg msgs' rw' ws' h))"
  using assms
proof (induction msgs arbitrary: msgs' g h rw rw')
  case Nil
  then show ?case by (simp add: final_globals_def)
next
  case (Cons cm msgs)
  obtain clk m where cm: "cm = (clk, m)" by (cases cm)
  from Cons.prems(1) cm obtain clk' rest' where msgs': "msgs' = (clk', m) # rest'"
    and rest': "map snd rest' = map snd msgs"
    by (cases msgs') auto
  have "totals (final_globals (process_message cfg clk m rw ws g)) =
        totals (final_globals (process_message cfg clk' m rw' ws' h))"
    by (rule process_message_totals_clock_free [OF Cons.prems(2)])
  from Cons.IH [OF rest' this, of rw rw']
  show ?case
    unfolding cm msgs' consume_Cons by (simp add: final_globals_def)
qed

lemma process_message_count_mono:
  "high_temp_count g \<le> high_temp_count (final_globals (process_message cfg clk m rw ws g))"
  by (auto simp: process_message_def final_globals_def Let_def record_reading_def
      count_high_temp_def periodic_report_def
      split: message.splits sum.splits prod.splits if_splits)

lemma consume_count_mono:
  "high_temp_count g \<le> high_temp_count (final_globals (consume cfg msgs rw ws g))"
proof (induction msgs arbitrary: g rw)
  case Nil
  show ?case by (simp add: final_globals_def)
next
  case (Cons cm msgs)
  obtain clk m where cm: "cm = (clk, m)" by (cases cm)
  have "high_temp_count g \<le> high_temp_count (final_globals (process_message cfg clk m rw ws g))"
    by (rule process_message_count_mono)
  also have "\<dots> \<le> high_temp_count
      (final_globals (consume cfg msgs rw ws (final_globals (process_message cfg clk m rw ws g))))"
    by (rule Cons.IH)
  finally show ?case
    unfolding cm consume_Cons by (simp add: final_globals_def)
qed

subsection \<open>When a report is printed\<close>

lemma process_message_report_resets_window:
  assumes "reports (emitted (process_message cfg clk m rw ws g)) \<noteq> []"
  shows "window_start (final_globals (process_message cfg clk m rw ws g)) = time_at_reset clk"
    and "window_messages (final_globals (process_message cfg clk m rw ws g)) = 0"
    and "of_int (rolling_window_size cfg) \<le> time_at_check clk - window_start g"
    and "accepted m"
    and "length (reports (emitted (process_message cfg clk m rw ws g))) = 1"
proof -
  have acc: "accepted m"
  proof (rule ccontr)
    assume "\<not> accepted m"
    then have "emitted (process_message cfg clk m rw ws g) = [LogInvalidMessage] \<or>
          emitted (process_message cfg clk m rw ws g) = [LogError JSONDecodeError] \<or>
          emitted (process_message cfg clk m rw ws g) = [LogError AttributeError]"
      by (cases m; cases "case m of Json d \<Rightarrow> d")
         (auto simp: process_message_def accepted_def emitted_def split: option.splits)
    with assms show False by auto
  qed
  then obtain d temp ts where m: "m = Json (PDict d)"
    and temp: "dict_get (PDict d) ''temperature'' = Inr temp" "temp \<noteq> PNone"
    and ts: "dict_get (PDict d) ''timestamp'' = Inr ts" "ts \<noteq> PNone"
    by (auto simp: accepted_iff)
  from assms m temp ts obtain g2 c where
      g2: "count_high_temp cfg temp (record_reading ts temp g) = Inr g2"
    and c: "update_chart cfg g2 = Inr c"
    and pm: "process_message cfg clk m rw ws g =
             ((fst (periodic_report cfg clk g2), rw), DrawChart c # snd (periodic_report cfg clk g2))"
    by (auto simp: process_message_def emitted_def Let_def split: sum.splits prod.splits)
  have ws2: "window_start g2 = window_start g"
    using count_high_temp_frame [OF g2] by (simp add: record_reading_def)
  from assms pm have fired: "of_int (rolling_window_size cfg) \<le> time_at_check clk - window_start g2"
    by (auto simp: emitted_def periodic_report_def Let_def split: if_splits)
  show "accepted m" by (rule acc)
  show "of_int (rolling_window_size cfg) \<le> time_at_check clk - window_start g"
    using fired ws2 by simp
  show "window_start (final_globals (process_message cfg clk m rw ws g)) = time_at_reset clk"
    using pm fired by (simp add: final_globals_def periodic_report_def Let_def)
  show "window_messages (final_globals (process_message cfg clk m rw ws g)) = 0"
    using pm fired by (simp add: final_globals_def periodic_report_def Let_def)
  show "length (reports (emitted (process_message cfg clk m rw ws g))) = 1"
    using pm fired by (simp add: emitted_def periodic_report_def Let_def)
qed


subsection \<open>Runs over numeric readings\<close>












subsection \<open>Counting the reports of a run\<close>



section \<open>The history and the message count\<close>

text \<open>
  C1. Starting from the freshly initialised module, after every prefix of every sequence
  of messages the two history lists and \<open>total_messages\<close> have the same size, and
  that size is the number of accepted messages processed so far: the three grow by one
  on an accepted reading and not at all otherwise. So after \<open>N\<close> valid messages all
  three are \<open>N\<close>. (The points observed are those between two messages; inside
  \<^verbatim>\<open>process_message\<close> the three updates of lines 176-179 follow each other with
  nothing in between that can raise or observe them.)
\<close>

theorem history_lengths_equal_total_messages:
  "int (length (timestamps (final_globals (consume cfg (take n msgs) rw ws (module_init t0))))) =
     total_messages (final_globals (consume cfg (take n msgs) rw ws (module_init t0))) \<and>
   int (length (temperatures (final_globals (consume cfg (take n msgs) rw ws (module_init t0))))) =
     total_messages (final_globals (consume cfg (take n msgs) rw ws (module_init t0))) \<and>
   total_messages (final_globals (consume cfg (take n msgs) rw ws (module_init t0))) =
     int (length (filter (accepted \<circ> snd) (take n msgs)))"
  using consume_history [of cfg "take n msgs" rw ws "module_init t0"]
  by (simp add: module_init_def)

section \<open>The statistics of high temperatures\<close>




section \<open>Messages that are not readings\<close>

text \<open>
  C3. A message that is not valid JSON, or that decodes to something in which
  \<^verbatim>\<open>temperature\<close> or \<^verbatim>\<open>timestamp\<close> is absent or null (by \<open>accepted_iff\<close> these
  are exactly the messages that are not accepted), leaves every global and the deque as
  they were. The call returns normally: all it emits is one error log line, no chart
  and no report. The loop goes on with the next message from the unchanged state.
\<close>

theorem rejected_message_leaves_state_unchanged:
  assumes "\<not> accepted m"
  shows "final_globals (process_message cfg clk m rw ws g) = g \<and>
         final_deque (process_message cfg clk m rw ws g) = rw \<and>
         (emitted (process_message cfg clk m rw ws g) = [LogInvalidMessage] \<or>
          emitted (process_message cfg clk m rw ws g) = [LogError JSONDecodeError] \<or>
          emitted (process_message cfg clk m rw ws g) = [LogError AttributeError]) \<and>
         final_globals (consume cfg ((clk, m) # rest) rw ws g) =
           final_globals (consume cfg rest rw ws g) \<and>
         emitted (consume cfg ((clk, m) # rest) rw ws g) =
           emitted (process_message cfg clk m rw ws g) @ emitted (consume cfg rest rw ws g)"
proof -
  have state: "fst (process_message cfg clk m rw ws g) = (g, rw)"
    using assms by (rule process_message_rejected)
  have logged: "snd (process_message cfg clk m rw ws g) = [LogInvalidMessage] \<or>
                snd (process_message cfg clk m rw ws g) = [LogError JSONDecodeError] \<or>
                snd (process_message cfg clk m rw ws g) = [LogError AttributeError]"
  proof (cases m)
    case NotJson
    then show ?thesis by (simp add: process_message_def)
  next
    case (Json data)
    with assms show ?thesis
      by (cases data) (auto simp: process_message_def accepted_def split: option.splits)
  qed
  have loop: "consume cfg ((clk, m) # rest) rw ws g =
              (fst (consume cfg rest rw ws g),
               snd (process_message cfg clk m rw ws g) @ snd (consume cfg rest rw ws g))"
    using state by (cases "process_message cfg clk m rw ws g") (auto split: prod.splits)
  show ?thesis
    using state logged loop by (simp add: final_globals_def final_deque_def emitted_def)
qed

theorem rejected_message_leaves_state_unchanged_witness:
  "\<not> accepted (Json (PDict [(''timestamp'', PStr ''t1''), (''temperature'', PNone)])) \<and>
   final_globals (process_message \<lparr>high_temp_threshold = 90, rolling_window_size = 5\<rparr>
       \<lparr>time_at_check = 100, time_at_reset = 100\<rparr>
       (Json (PDict [(''timestamp'', PStr ''t1''), (''temperature'', PNone)]))
       \<lparr>maxlen = 5, items = []\<rparr> 5 (module_init 0)) = module_init 0 \<and>
   emitted (process_message \<lparr>high_temp_threshold = 90, rolling_window_size = 5\<rparr>
       \<lparr>time_at_check = 100, time_at_reset = 100\<rparr>
       (Json (PDict [(''timestamp'', PStr ''t1''), (''temperature'', PNone)]))
       \<lparr>maxlen = 5, items = []\<rparr> 5 (module_init 0)) = [LogInvalidMessage]"
proof -
  have rejected: "\<not> accepted (Json (PDict [(''timestamp'', PStr ''t1''), (''temperature'', PNone)]))"
    by (simp add: accepted_def)
  have "emitted (process_message \<lparr>high_temp_threshold = 90, rolling_window_size = 5\<rparr>
       \<lparr>time_at_check = 100, time_at_reset = 100\<rparr>
       (Json (PDict [(''timestamp'', PStr ''t1''), (''temperature'', PNone)]))
       \<lparr>maxlen = 5, items = []\<rparr> 5 (module_init 0)) = [LogInvalidMessage]"
    by (simp add: process_message_def emitted_def)
  with rejected
    rejected_message_leaves_state_unchanged [OF rejected,
      of "\<lparr>high_temp_threshold = 90, rolling_window_size = 5\<rparr>"
         "\<lparr>time_at_check = 100, time_at_reset = 100\<rparr>" "\<lparr>maxlen = 5, items = []\<rparr>" 5
         "module_init 0" "[]"]
  show ?thesis by simp
qed

section \<open>The periodic report\<close>

text \<open>
  C4. The report does not touch the running totals. For any message and any state, the
  history, \<open>total_messages\<close>, \<open>high_temps_sum\<close> and \<open>high_temp_count\<close> after
  \<^verbatim>\<open>process_message\<close> are the same whatever the clock reads, that is, whether the
  report is emitted or not; when it is emitted, the elapsed time had reached the window
  size and \<open>window_start\<close> is set to the current time (with the per-window counter
  \<open>window_messages\<close> back to 0). Over a whole run the totals therefore depend on the
  messages only, not on when reports were printed, and \<open>total_messages\<close> and
  \<open>high_temp_count\<close> never decrease.
\<close>

theorem report_leaves_running_totals:
  "totals (final_globals (process_message cfg clk m rw ws g)) =
     totals (final_globals (process_message cfg clk' m rw ws g)) \<and>
   (reports (emitted (process_message cfg clk m rw ws g)) \<noteq> [] \<longrightarrow>
      of_int (rolling_window_size cfg) \<le> time_at_check clk - window_start g \<and>
      window_start (final_globals (process_message cfg clk m rw ws g)) = time_at_reset clk \<and>
      window_messages (final_globals (process_message cfg clk m rw ws g)) = 0) \<and>
   (map snd msgs' = map snd msgs \<longrightarrow>
      totals (final_globals (consume cfg msgs rw ws g)) =
        totals (final_globals (consume cfg msgs' rw ws g))) \<and>
   total_messages g \<le> total_messages (final_globals (consume cfg msgs rw ws g)) \<and>
   high_temp_count g \<le> high_temp_count (final_globals (consume cfg msgs rw ws g))"
proof -
  have step: "totals (final_globals (process_message cfg clk m rw ws g)) =
              totals (final_globals (process_message cfg clk' m rw ws g))"
    by (rule process_message_totals_clock_free) simp
  have reset: "reports (emitted (process_message cfg clk m rw ws g)) \<noteq> [] \<longrightarrow>
      of_int (rolling_window_size cfg) \<le> time_at_check clk - window_start g \<and>
      window_start (final_globals (process_message cfg clk m rw ws g)) = time_at_reset clk \<and>
      window_messages (final_globals (process_message cfg clk m rw ws g)) = 0"
    using process_message_report_resets_window(1-3) [of cfg clk m rw ws g] by blast
  have run: "map snd msgs' = map snd msgs \<longrightarrow>
      totals (final_globals (consume cfg msgs rw ws g)) =
        totals (final_globals (consume cfg msgs' rw ws g))"
    using consume_totals_clock_free [of msgs' msgs g g cfg rw ws rw ws] by simp
  have total: "total_messages g \<le> total_messages (final_globals (consume cfg msgs rw ws g))"
    using consume_history [of cfg msgs rw ws g] by simp
  have count: "high_temp_count g \<le> high_temp_count (final_globals (consume cfg msgs rw ws g))"
    by (rule consume_count_mono)
  from step reset run total count show ?thesis by blast
qed

theorem report_leaves_running_totals_witness:
  "reports (emitted (process_message \<lparr>high_temp_threshold = 90, rolling_window_size = 5\<rparr>
       \<lparr>time_at_check = 10, time_at_reset = 11\<rparr>
       (Json (PDict [(''timestamp'', PStr ''t2''), (''temperature'', PInt 80)]))
       \<lparr>maxlen = 5, items = []\<rparr> 5
       \<lparr>timestamps = [PStr ''t1''], temperatures = [PInt 95], total_messages = 1,
        high_temps_sum = 95, high_temp_count = 1, window_messages = 1, window_start = 0\<rparr>)) =
     [\<lparr>report_total_messages = 2, report_avg_high_temp = 95\<rparr>] \<and>
   reports (emitted (process_message \<lparr>high_temp_threshold = 90, rolling_window_size = 5\<rparr>
       \<lparr>time_at_check = 2, time_at_reset = 2\<rparr>
       (Json (PDict [(''timestamp'', PStr ''t2''), (''temperature'', PInt 80)]))
       \<lparr>maxlen = 5, items = []\<rparr> 5
       \<lparr>timestamps = [PStr ''t1''], temperatures = [PInt 95], total_messages = 1,
        high_temps_sum = 95, high_temp_count = 1, window_messages = 1, window_start = 0\<rparr>)) = [] \<and>
   totals (final_globals (process_message \<lparr>high_temp_threshold = 90, rolling_window_size = 5\<rparr>
       \<lparr>time_at_check = 10, time_at_reset = 11\<rparr>
       (Json (PDict [(''timestamp'', PStr ''t2''), (''temperature'', PInt 80)]))
       \<lparr>maxlen = 5, items = []\<rparr> 5
       \<lparr>timestamps = [PStr ''t1''], temperatures = [PInt 95], total_messages = 1,
        high_temps_sum = 95, high_temp_count = 1, window_messages = 1, window_start = 0\<rparr>)) =
     ([PStr ''t1'', PStr ''t2''], [PInt 95, PInt 80], 2, 95, 1) \<and>
   window_start (final_globals (process_message \<lparr>high_temp_threshold = 90, rolling_window_size = 5\<rparr>
       \<lparr>time_at_check = 10, time_at_reset = 11\<rparr>
       (Json (PDict [(''timestamp'', PStr ''t2''), (''temperature'', PInt 80)]))
       \<lparr>maxlen = 5, items = []\<rparr> 5
       \<lparr>timestamps = [PStr ''t1''], temperatures = [PInt 95], total_messages = 1,
        high_temps_sum = 95, high_temp_count = 1, window_messages = 1, window_start = 0\<rparr>)) = 11"
proof -
  let ?cfg = "\<lparr>high_temp_threshold = 90, rolling_window_size = 5\<rparr>"
  let ?m = "Json (PDict [(''timestamp'', PStr ''t2''), (''temperature'', PInt 80)])"
  let ?rw = "\<lparr>maxlen = 5, items = []\<rparr>"
  let ?g = "\<lparr>timestamps = [PStr ''t1''], temperatures = [PInt 95], total_messages = 1,
        high_temps_sum = 95, high_temp_count = 1, window_messages = 1, window_start = 0\<rparr>"
  have late: "reports (emitted (process_message ?cfg \<lparr>time_at_check = 10, time_at_reset = 11\<rparr>
                 ?m ?rw 5 ?g)) = [\<lparr>report_total_messages = 2, report_avg_high_temp = 95\<rparr>]"
    by (simp add: process_message_def record_reading_def count_high_temp_def
        update_chart_def periodic_report_def emitted_def avg_high_temp_def Let_def)
  have early: "reports (emitted (process_message ?cfg \<lparr>time_at_check = 2, time_at_reset = 2\<rparr>
                 ?m ?rw 5 ?g)) = []"
    by (simp add: process_message_def record_reading_def count_high_temp_def
        update_chart_def periodic_report_def emitted_def Let_def)
  have quiet: "totals (final_globals (process_message ?cfg \<lparr>time_at_check = 2, time_at_reset = 2\<rparr>
                 ?m ?rw 5 ?g)) = ([PStr ''t1'', PStr ''t2''], [PInt 95, PInt 80], 2, 95, 1)"
    by (simp add: process_message_def record_reading_def count_high_temp_def
        update_chart_def periodic_report_def final_globals_def totals_def Let_def)
  from report_leaves_running_totals
    [of ?cfg "\<lparr>time_at_check = 10, time_at_reset = 11\<rparr>" ?m ?rw 5 ?g
        "\<lparr>time_at_check = 2, time_at_reset = 2\<rparr>" "[]" "[]"]
  have "totals (final_globals (process_message ?cfg \<lparr>time_at_check = 10, time_at_reset = 11\<rparr>
                 ?m ?rw 5 ?g)) = ([PStr ''t1'', PStr ''t2''], [PInt 95, PInt 80], 2, 95, 1)"
    and "window_start (final_globals (process_message ?cfg \<lparr>time_at_check = 10, time_at_reset = 11\<rparr>
                 ?m ?rw 5 ?g)) = 11"
    using late quiet by simp_all
  with late early show ?thesis by blast
qed







section \<open>The rolling window\<close>



section \<open>Bar colours\<close>

text \<open>
  C8. For one history of temperatures and two thresholds \<open>t1 \<le> t2\<close>, every bar that
  \<^verbatim>\<open>update_chart\<close> draws in the base colour (blue) under \<open>t1\<close> is blue under
  \<open>t2\<close> as well: raising the threshold never turns a blue bar red. (Whether the chart
  can be drawn at all does not depend on the threshold, see
  \<open>bar_colors_of_raises_alike\<close>.)
\<close>

theorem bar_colors_monotone_in_threshold:
  assumes "high_temp_threshold cfg1 \<le> high_temp_threshold cfg2"
    and "update_chart cfg1 g = Inr c1" and "update_chart cfg2 g = Inr c2"
    and "i < length (temperatures g)" and "bar_colors c1 ! i = Blue"
  shows "length (bar_colors c1) = length (temperatures g) \<and>
         length (bar_colors c2) = length (temperatures g) \<and>
         bar_colors c2 ! i = Blue"
proof -
  from assms(2) have cs1: "bar_colors_of (high_temp_threshold cfg1) (temperatures g) = Inr (bar_colors c1)"
    by (auto simp: update_chart_def split: sum.splits)
  from assms(3) have cs2: "bar_colors_of (high_temp_threshold cfg2) (temperatures g) = Inr (bar_colors c2)"
    by (auto simp: update_chart_def split: sum.splits)
  have "py_ge (temperatures g ! i) (high_temp_threshold cfg1) = Inr False"
    using bar_colors_of_nth [OF cs1 assms(4)] assms(5) by simp
  moreover have "py_ge (temperatures g ! i) (high_temp_threshold cfg2) = Inr (bar_colors c2 ! i = Red)"
    using bar_colors_of_nth [OF cs2 assms(4)] .
  ultimately have "bar_colors c2 ! i \<noteq> Red"
    using py_ge_monotone [OF assms(1)] by blast
  then have "bar_colors c2 ! i = Blue"
    by (cases "bar_colors c2 ! i") auto
  then show ?thesis
    using bar_colors_of_length [OF cs1] bar_colors_of_length [OF cs2] by simp
qed

theorem bar_colors_monotone_in_threshold_witness:
  "update_chart \<lparr>high_temp_threshold = 90, rolling_window_size = 5\<rparr>
     ((module_init 0)\<lparr>timestamps := [PStr ''t1'', PStr ''t2'', PStr ''t3''],
                      temperatures := [PInt 80, PInt 95, PFloat 100]\<rparr>) =
     Inr \<lparr>bar_x = [PStr ''t1'', PStr ''t2'', PStr ''t3''],
          bar_y = [PInt 80, PInt 95, PFloat 100], bar_colors = [Blue, Red, Red]\<rparr> \<and>
   update_chart \<lparr>high_temp_threshold = 98, rolling_window_size = 5\<rparr>
     ((module_init 0)\<lparr>timestamps := [PStr ''t1'', PStr ''t2'', PStr ''t3''],
                      temperatures := [PInt 80, PInt 95, PFloat 100]\<rparr>) =
     Inr \<lparr>bar_x = [PStr ''t1'', PStr ''t2'', PStr ''t3''],
          bar_y = [PInt 80, PInt 95, PFloat 100], bar_colors = [Blue, Blue, Red]\<rparr> \<and>
   [Blue, Blue, Red] ! 0 = Blue"
proof -
  let ?g = "(module_init 0)\<lparr>timestamps := [PStr ''t1'', PStr ''t2'', PStr ''t3''],
                            temperatures := [PInt 80, PInt 95, PFloat 100]\<rparr>"
  let ?c1 = "\<lparr>bar_x = [PStr ''t1'', PStr ''t2'', PStr ''t3''],
              bar_y = [PInt 80, PInt 95, PFloat 100], bar_colors = [Blue, Red, Red]\<rparr>"
  let ?c2 = "\<lparr>bar_x = [PStr ''t1'', PStr ''t2'', PStr ''t3''],
              bar_y = [PInt 80, PInt 95, PFloat 100], bar_colors = [Blue, Blue, Red]\<rparr>"
  have u1: "update_chart \<lparr>high_temp_threshold = 90, rolling_window_size = 5\<rparr> ?g = Inr ?c1"
    by (simp add: update_chart_def module_init_def)
  have u2: "update_chart \<lparr>high_temp_threshold = 98, rolling_window_size = 5\<rparr> ?g = Inr ?c2"
    by (simp add: update_chart_def module_init_def)
  have "bar_colors ?c2 ! 0 = Blue"
    using bar_colors_monotone_in_threshold [OF _ u1 u2, of 0] by (simp add: module_init_def)
  with u1 u2 show ?thesis by simp
qed

section \<open>The end-to-end scenario\<close>

text \<open>
  C9. From the initial state and with threshold 90.0, the three messages with
  temperatures 80, 95 and 100 give \<open>total_messages = 3\<close>, \<open>high_temp_count = 2\<close>,
  \<open>high_temps_sum = 195\<close> and an average of 97.5, whatever the clock readings, the
  window size and the deque are. With a window of 5 seconds that elapses while the third
  message is processed, the one report printed shows 3 messages and the average 97.5.
\<close>

theorem three_message_scenario:
  "total_messages (final_globals (consume \<lparr>high_temp_threshold = 90, rolling_window_size = w\<rparr>
      [(c1, Json (PDict [(''timestamp'', PStr ''t1''), (''temperature'', PInt 80)])),
       (c2, Json (PDict [(''timestamp'', PStr ''t2''), (''temperature'', PInt 95)])),
       (c3, Json (PDict [(''timestamp'', PStr ''t3''), (''temperature'', PInt 100)]))]
      rw ws (module_init t0))) = 3 \<and>
   high_temp_count (final_globals (consume \<lparr>high_temp_threshold = 90, rolling_window_size = w\<rparr>
      [(c1, Json (PDict [(''timestamp'', PStr ''t1''), (''temperature'', PInt 80)])),
       (c2, Json (PDict [(''timestamp'', PStr ''t2''), (''temperature'', PInt 95)])),
       (c3, Json (PDict [(''timestamp'', PStr ''t3''), (''temperature'', PInt 100)]))]
      rw ws (module_init t0))) = 2 \<and>
   high_temps_sum (final_globals (consume \<lparr>high_temp_threshold = 90, rolling_window_size = w\<rparr>
      [(c1, Json (PDict [(''timestamp'', PStr ''t1''), (''temperature'', PInt 80)])),
       (c2, Json (PDict [(''timestamp'', PStr ''t2''), (''temperature'', PInt 95)])),
       (c3, Json (PDict [(''timestamp'', PStr ''t3''), (''temperature'', PInt 100)]))]
      rw ws (module_init t0))) = 195 \<and>
   avg_high_temp (final_globals (consume \<lparr>high_temp_threshold = 90, rolling_window_size = w\<rparr>
      [(c1, Json (PDict [(''timestamp'', PStr ''t1''), (''temperature'', PInt 80)])),
       (c2, Json (PDict [(''timestamp'', PStr ''t2''), (''temperature'', PInt 95)])),
       (c3, Json (PDict [(''timestamp'', PStr ''t3''), (''temperature'', PInt 100)]))]
      rw ws (module_init t0))) = 97.5 \<and>
   reports (emitted (consume \<lparr>high_temp_threshold = 90, rolling_window_size = 5\<rparr>
      [(\<lparr>time_at_check = 1, time_at_reset = 1\<rparr>,
        Json (PDict [(''timestamp'', PStr ''t1''), (''temperature'', PInt 80)])),
       (\<lparr>time_at_check = 2, time_at_reset = 2\<rparr>,
        Json (PDict [(''timestamp'', PStr ''t2''), (''temperature'', PInt 95)])),
       (\<lparr>time_at_check = 6, time_at_reset = 6\<rparr>,
        Json (PDict [(''timestamp'', PStr ''t3''), (''temperature'', PInt 100)]))]
      rw ws (module_init 0))) =
     [\<lparr>report_total_messages = 3, report_avg_high_temp = 97.5\<rparr>]"
  by (simp add: module_init_def process_message_def record_reading_def
      count_high_temp_def float_of_int_def update_chart_def periodic_report_def
      final_globals_def emitted_def avg_high_temp_def Let_def)

section \<open>A temperature that does not compare with the threshold\<close>

text \<open>
  C10. A message that decodes to a dict with both fields present and not null, but
  whose temperature does not compare with a float (a string, a list, a dict), is recorded
  before the comparison of line 181 raises: timestamp and temperature are appended to the
  histories, \<open>total_messages\<close> and \<open>window_messages\<close> are incremented. The
  \<^verbatim>\<open>TypeError\<close> is caught and logged, and nothing else happens: the sum and the count
  of high temperatures and the window start are as before, no chart is drawn and no
  report is printed.
\<close>

theorem incomparable_temperature_recorded_before_error:
  assumes "dict_get data ''temperature'' = Inr temperature" and "temperature \<noteq> PNone"
    and "dict_get data ''timestamp'' = Inr timestamp" and "timestamp \<noteq> PNone"
    and "py_ge temperature (high_temp_threshold cfg) = Inl err"
  shows "process_message cfg clk (Json data) rw ws g =
           ((g\<lparr>timestamps := timestamps g @ [timestamp],
                temperatures := temperatures g @ [temperature],
                total_messages := total_messages g + 1,
                window_messages := window_messages g + 1\<rparr>, rw),
            [LogError TypeError])"
proof -
  have "err = TypeError"
    using assms(5) by (cases temperature) auto
  then have "count_high_temp cfg temperature (record_reading timestamp temperature g) = Inl TypeError"
    using assms(5) by (simp add: count_high_temp_def)
  then show ?thesis
    using assms(1-4) by (simp add: process_message_def record_reading_def)
qed

theorem incomparable_temperature_recorded_before_error_witness:
  "process_message \<lparr>high_temp_threshold = 90, rolling_window_size = 5\<rparr>
       \<lparr>time_at_check = 100, time_at_reset = 101\<rparr>
       (Json (PDict [(''timestamp'', PStr ''t1''), (''temperature'', PStr ''hot'')]))
       \<lparr>maxlen = 5, items = []\<rparr> 5 (module_init 0) =
     (((module_init 0)\<lparr>timestamps := [PStr ''t1''], temperatures := [PStr ''hot''],
                       total_messages := 1, window_messages := 1\<rparr>,
       \<lparr>maxlen = 5, items = []\<rparr>),
      [LogError TypeError])"
  using incomparable_temperature_recorded_before_error
    [of "PDict [(''timestamp'', PStr ''t1''), (''temperature'', PStr ''hot'')]"
        "PStr ''hot''" "PStr ''t1''" "\<lparr>high_temp_threshold = 90, rolling_window_size = 5\<rparr>"
        TypeError "\<lparr>time_at_check = 100, time_at_reset = 101\<rparr>"
        "\<lparr>maxlen = 5, items = []\<rparr>" 5 "module_init 0"]
  by (simp add: module_init_def)

end
